theory Spec2Isabelle
  imports Main "HOL-Library.Word"
begin

section \<open>The plugin manager of browser/src/Plugins/PluginManager.ts\<close>

text \<open>
  The class \<open>PluginManager\<close> routes editor events to plugins over a channel and
  applies the plugins' responses. Its methods are embedded as functions on an explicit
  manager state that return the state, the effects performed in order, and how the call
  completed (normally, or by a thrown \<open>TypeError\<close>).
\<close>

subsection \<open>JavaScript values\<close>

text \<open>
  A number is one of the integers that a double holds exactly and that JavaScript
  writes with all their digits: the integers from \<open>-2^53\<close> to \<open>2^53 - 1\<close>, the values
  \<open>sint\<close> reads from a 54-bit word. Line, column and version numbers are such. The
  source does no arithmetic on numbers: it compares them, tests them for zero and writes
  them into strings. \<open>NaN\<close>, the infinities, fractions and larger numbers are left out
  of the model: no value of the type stands for one. (A numeral beyond the range, read
  as a word, is the number of the range it wraps to.)
\<close>

type_synonym number = "54 word"

text \<open>
  A plugin response has the TypeScript type \<open>any\<close>: it is an arbitrary value. Values
  are plain data: \<open>undefined\<close>, \<open>null\<close>, booleans, numbers, strings, arrays and
  objects (a list of own properties; the first entry for a name is the property). An
  object inherits from \<open>Object.prototype\<close>, an array from \<open>Array.prototype\<close>, and
  no property holds a function.
\<close>

datatype jsval =
    JUndefined
  | JNull
  | JBool bool
  | JNum number
  | JStr string
  | JArr "jsval list"
  | JObj "(string \<times> jsval) list"

datatype js_error = TypeError

text \<open>
  \<open>v.name\<close>: reading a property of \<open>undefined\<close> or \<open>null\<close> throws a TypeError; a
  property an object does not have is \<open>undefined\<close>. The names the source reads
  (type, meta, originEvent, bufferFullPath, line, column, error, payload, info,
  documentation, filePath, details, key, fileName, errors, color) are no inherited
  properties of strings, numbers, booleans or arrays, so reading them there gives
  \<open>undefined\<close> too.
\<close>

fun getProp :: "jsval \<Rightarrow> string \<Rightarrow> js_error + jsval" where
  "getProp JUndefined name = Inl TypeError"
| "getProp JNull name = Inl TypeError"
| "getProp (JObj props) name =
     (case map_of props name of None \<Rightarrow> Inr JUndefined | Some v \<Rightarrow> Inr v)"
| "getProp v name = Inr JUndefined"

text \<open>
  \<open>v === s\<close> for a string \<open>s\<close> and \<open>v === n\<close> for a number \<open>n\<close>: strict equality
  converts nothing. Every \<open>===\<close> of the source has a string literal or a field of the
  typed event context on its right.
\<close>

definition strictEqStr :: "jsval \<Rightarrow> string \<Rightarrow> bool" where
  "strictEqStr v s = (v = JStr s)"

definition strictEqNum :: "jsval \<Rightarrow> number \<Rightarrow> bool" where
  "strictEqNum v n = (v = JNum n)"

text \<open>The truth value of \<open>v\<close> in \<open>!v\<close>.\<close>

fun truthy :: "jsval \<Rightarrow> bool" where
  "truthy JUndefined = False"
| "truthy JNull = False"
| "truthy (JBool b) = b"
| "truthy (JNum n) = (n \<noteq> 0)"
| "truthy (JStr s) = (s \<noteq> [])"
| "truthy (JArr xs) = True"
| "truthy (JObj props) = True"

text \<open>
  The decimal digits of a number that is not negative, and a number as string
  concatenation writes it.
\<close>

function digits :: "int \<Rightarrow> string" where
  "digits n =
     (if n < 10 then [''0123456789'' ! nat n]
      else digits (n div 10) @ [''0123456789'' ! nat (n mod 10)])"
  by pat_completeness auto
termination
  by (relation "measure nat") auto

definition numberToString :: "number \<Rightarrow> string" where
  "numberToString n = (if sint n < 0 then ''-'' @ digits (- sint n) else digits (sint n))"

fun joinWith :: "string \<Rightarrow> string list \<Rightarrow> string" where
  "joinWith sep [] = []"
| "joinWith sep [s] = s"
| "joinWith sep (s # t # ss) = s @ sep @ joinWith sep (t # ss)"

text \<open>The conversions of a list of values, from the left; the first throw ends them.\<close>

fun allOrThrow :: "(js_error + 'a) list \<Rightarrow> js_error + 'a list" where
  "allOrThrow [] = Inr []"
| "allOrThrow (Inl e # rs) = Inl e"
| "allOrThrow (Inr x # rs) =
     (case allOrThrow rs of Inl e \<Rightarrow> Inl e | Inr xs \<Rightarrow> Inr (x # xs))"

text \<open>
  The string that \<open>"..." + v\<close> appends, or the TypeError that the conversion throws.
  An object is converted by its \<open>valueOf\<close> and \<open>toString\<close>. The inherited
  \<open>valueOf\<close> returns the object, which is no primitive, and the inherited
  \<open>toString\<close> returns \<open>[object Object]\<close>; an own property is no function and is
  passed over. So an object with an own property \<open>toString\<close> has no conversion left
  and the concatenation throws, and every other object gives \<open>[object Object]\<close>. An
  array is its elements joined by commas, with \<open>undefined\<close> and \<open>null\<close> elements
  empty; an element that cannot be converted makes the join throw.
\<close>

fun toString :: "jsval \<Rightarrow> js_error + string" where
  "toString JUndefined = Inr ''undefined''"
| "toString JNull = Inr ''null''"
| "toString (JBool b) = Inr (if b then ''true'' else ''false'')"
| "toString (JNum n) = Inr (numberToString n)"
| "toString (JStr s) = Inr s"
| "toString (JArr xs) =
     (case allOrThrow
             (map (\<lambda>x. if x = JUndefined \<or> x = JNull then Inr [] else toString x) xs) of
        Inl e \<Rightarrow> Inl e
      | Inr ss \<Rightarrow> Inr (joinWith '','' ss))"
| "toString (JObj props) =
     (case map_of props ''toString'' of
        None \<Rightarrow> Inr ''[object Object]''
      | Some v \<Rightarrow> Inl TypeError)"

subsection \<open>The manager's data\<close>

text \<open>
  \<open>Oni.EventContext\<close> is declared outside this file; its fields are those of
  \<open>IEventContext\<close> and the \<open>version\<close> that \<open>_onBufferUpdate\<close> reads.
\<close>

record EventContext =
  bufferFullPath :: string
  line :: number
  column :: number
  byte :: number
  filetype :: string
  version :: number

record IBufferInfo =
  lines :: "string list"
  version :: number
  fileName :: string

text \<open>
  The two mutable fields of the class; \<open>None\<close> is \<open>undefined\<close>, their value before
  the first event. The model is the manager after \<open>startPlugins\<close>: the editor
  instance is assigned there, and plugins and event callbacks exist only from there on.
  The plugin list, the plugin paths and the channel are assigned once and play no part
  in the methods embedded here; what is sent to the channel is an effect.
\<close>

record manager =
  lastEventContext :: "EventContext option"
  lastBufferInfo :: "IBufferInfo option"

text \<open>The configuration values the manager polls.\<close>

record config =
  quickInfoEnabled :: bool
  completionsEnabled :: bool
  quickInfoDelay :: int

subsection \<open>Effects\<close>

text \<open>
  The capabilities object and the filter passed along with a message to the channel:
  \<open>CreatePluginFilter ft caps b\<close> stands for the call
  \<open>Capabilities.createPluginFilter(ft, caps, b)\<close>.
\<close>

datatype required =
    Subscriptions "string list"
  | LanguageService "string list"

datatype pluginFilter = CreatePluginFilter string required bool

text \<open>
  The messages sent to the channel. A request's payload is
  \<open>{name, context, ...additionalArgs}\<close>; the callers pass no additional argument
  called name or context.
\<close>

datatype outbound =
    BufferUpdateMessage EventContext "string list"
  | EventMessage string EventContext
  | RequestMessage string EventContext "(string \<times> jsval) list"
  | CommandMessage jsval "EventContext option"

text \<open>
  The function handed to \<open>setTimeout\<close>, with the response it has captured. It runs
  later, on the state the manager has then.
\<close>

datatype callback =
    ShowQuickInfoIfCurrent jsval
  | HideQuickInfo
  | ShowCompletions jsval
  | SetDetailedCompletionEntry jsval

datatype action =
    UI_hideQuickInfo
  | UI_showQuickInfo jsval jsval
  | UI_showCompletions jsval
  | UI_setDetailedCompletionEntry jsval
  | Neovim_command string
  | Emit string "jsval list"
  | Console_log string
  | Host_send outbound "pluginFilter option"
  | SetTimeout callback "int option"

datatype completion = Returned | Threw js_error

type_synonym outcome = "manager \<times> action list \<times> completion"

subsection \<open>Origin validation\<close>

definition abortedMessage :: string where
  "abortedMessage =
     ''Plugin response aborted as it didn't match current even (buffer/line/col)''"

text \<open>
  \<open>_validateOriginEventMatchesCurrentEvent\<close>: the log it writes and its result. The
  first comparison reads \<open>originEvent.bufferFullPath\<close> and then
  \<open>currentEvent.bufferFullPath\<close>; each read throws on \<open>undefined\<close>.
\<close>

definition validateOriginEventMatchesCurrentEvent ::
  "manager \<Rightarrow> jsval \<Rightarrow> action list \<times> (js_error + bool)" where
  "validateOriginEventMatchesCurrentEvent m pluginResponse =
     (case getProp pluginResponse ''meta'' of
        Inl e \<Rightarrow> ([], Inl e)
      | Inr meta \<Rightarrow>
     (case getProp meta ''originEvent'' of
        Inl e \<Rightarrow> ([], Inl e)
      | Inr originEvent \<Rightarrow>
     (case getProp originEvent ''bufferFullPath'' of
        Inl e \<Rightarrow> ([], Inl e)
      | Inr originPath \<Rightarrow>
     (case lastEventContext m of
        None \<Rightarrow> ([], Inl TypeError)
      | Some currentEvent \<Rightarrow>
          if strictEqStr originPath (bufferFullPath currentEvent)
             \<and> (case getProp originEvent ''line'' of
                    Inl e \<Rightarrow> False
                  | Inr l \<Rightarrow> strictEqNum l (line currentEvent))
             \<and> (case getProp originEvent ''column'' of
                    Inl e \<Rightarrow> False
                  | Inr c \<Rightarrow> strictEqNum c (column currentEvent))
          then ([], Inr True)
          else ([Console_log abortedMessage], Inr False)))))"

subsection \<open>Responses from plugins\<close>

text \<open>
  The guard that opens the three origin-checked branches,
  \<open>if (!this._validateOriginEventMatchesCurrentEvent(pluginResponse)) { return }\<close>,
  followed by the rest of the branch.
\<close>

definition whenOriginMatches :: "manager \<Rightarrow> jsval \<Rightarrow> outcome \<Rightarrow> outcome" where
  "whenOriginMatches m pluginResponse rest =
     (case validateOriginEventMatchesCurrentEvent m pluginResponse of
        (log, Inl e) \<Rightarrow> (m, log, Threw e)
      | (log, Inr matched) \<Rightarrow>
          if \<not> matched then (m, log, Returned)
          else (case rest of (m', acts, c) \<Rightarrow> (m', log @ acts, c)))"

text \<open>
  The branches of \<open>_handlePluginResponse\<close>, one definition for each. A branch reads
  what the source reads, in its order, so a read that throws ends the call where the
  source's would. In the goto-definition branch the destructuring reads the three
  properties first; then each command is built and issued in turn, so a concatenation
  that throws in the second command comes after the first command has been issued.
\<close>

definition showQuickInfoResponse :: "config \<Rightarrow> manager \<Rightarrow> jsval \<Rightarrow> outcome" where
  "showQuickInfoResponse cfg m pluginResponse =
     whenOriginMatches m pluginResponse
       (case getProp pluginResponse ''error'' of
          Inl e \<Rightarrow> (m, [], Threw e)
        | Inr err \<Rightarrow>
            if \<not> truthy err then
              (m, [UI_hideQuickInfo,
                   SetTimeout (ShowQuickInfoIfCurrent pluginResponse)
                     (Some (quickInfoDelay cfg))], Returned)
            else (m, [SetTimeout HideQuickInfo None], Returned))"

definition gotoDefinitionResponse :: "manager \<Rightarrow> jsval \<Rightarrow> outcome" where
  "gotoDefinitionResponse m pluginResponse =
     whenOriginMatches m pluginResponse
       (case getProp pluginResponse ''payload'' of
          Inl e \<Rightarrow> (m, [], Threw e)
        | Inr payload \<Rightarrow>
       (case getProp payload ''filePath'' of
          Inl e \<Rightarrow> (m, [], Threw e)
        | Inr filePath \<Rightarrow>
       (case getProp payload ''line'' of
          Inl e \<Rightarrow> (m, [], Threw e)
        | Inr l \<Rightarrow>
       (case getProp payload ''column'' of
          Inl e \<Rightarrow> (m, [], Threw e)
        | Inr c \<Rightarrow>
       (case toString filePath of
          Inl e \<Rightarrow> (m, [], Threw e)
        | Inr filePathText \<Rightarrow>
       (case toString l of
          Inl e \<Rightarrow> (m, [Neovim_command (''e! '' @ filePathText)], Threw e)
        | Inr lineText \<Rightarrow>
       (case toString c of
          Inl e \<Rightarrow> (m, [Neovim_command (''e! '' @ filePathText)], Threw e)
        | Inr columnText \<Rightarrow>
            (m, [Neovim_command (''e! '' @ filePathText),
                 Neovim_command (''keepjumps norm '' @ lineText @ ''G'' @ columnText),
                 Neovim_command ''norm zz''], Returned))))))))"

definition completionProviderResponse :: "manager \<Rightarrow> jsval \<Rightarrow> outcome" where
  "completionProviderResponse m pluginResponse =
     whenOriginMatches m pluginResponse
       (case getProp pluginResponse ''payload'' of
          Inl e \<Rightarrow> (m, [], Threw e)
        | Inr payload \<Rightarrow>
            if \<not> truthy payload then (m, [], Returned)
            else (m, [SetTimeout (ShowCompletions pluginResponse) None], Returned))"

definition completionItemSelectedResponse :: "manager \<Rightarrow> jsval \<Rightarrow> outcome" where
  "completionItemSelectedResponse m pluginResponse =
     (m, [SetTimeout (SetDetailedCompletionEntry pluginResponse) None], Returned)"

definition setErrorsResponse :: "manager \<Rightarrow> jsval \<Rightarrow> outcome" where
  "setErrorsResponse m pluginResponse =
     (case getProp pluginResponse ''payload'' of
        Inl e \<Rightarrow> (m, [], Threw e)
      | Inr payload \<Rightarrow>
     (case getProp payload ''key'' of
        Inl e \<Rightarrow> (m, [], Threw e)
      | Inr key \<Rightarrow>
     (case getProp payload ''fileName'' of
        Inl e \<Rightarrow> (m, [], Threw e)
      | Inr file \<Rightarrow>
     (case getProp payload ''errors'' of
        Inl e \<Rightarrow> (m, [], Threw e)
      | Inr errors \<Rightarrow>
     (case getProp payload ''color'' of
        Inl e \<Rightarrow> (m, [], Threw e)
      | Inr color \<Rightarrow>
          (m, [Emit ''set-errors'' [key, file, errors, color]], Returned))))))"

text \<open>\<open>this.emit(name, pluginResponse.payload)\<close>, the body of five branches.\<close>

definition emitPayload :: "manager \<Rightarrow> string \<Rightarrow> jsval \<Rightarrow> outcome" where
  "emitPayload m name pluginResponse =
     (case getProp pluginResponse ''payload'' of
        Inl e \<Rightarrow> (m, [], Threw e)
      | Inr payload \<Rightarrow> (m, [Emit name [payload]], Returned))"

definition signatureHelpResponse :: "manager \<Rightarrow> jsval \<Rightarrow> outcome" where
  "signatureHelpResponse m pluginResponse =
     (case getProp pluginResponse ''error'' of
        Inl e \<Rightarrow> (m, [], Threw e)
      | Inr err \<Rightarrow>
     (case getProp pluginResponse ''payload'' of
        Inl e \<Rightarrow> (m, [], Threw e)
      | Inr payload \<Rightarrow>
          (m, [Emit ''signature-help-response'' [err, payload]], Returned)))"

text \<open>
  \<open>_handlePluginResponse\<close>: the chain of comparisons of \<open>pluginResponse.type\<close>, in
  the order of the source; a type that no comparison accepts falls through.
\<close>

definition handlePluginResponse :: "config \<Rightarrow> manager \<Rightarrow> jsval \<Rightarrow> outcome" where
  "handlePluginResponse cfg m pluginResponse =
     (case getProp pluginResponse ''type'' of
        Inl e \<Rightarrow> (m, [], Threw e)
      | Inr ty \<Rightarrow>
          if strictEqStr ty ''show-quick-info'' then
            showQuickInfoResponse cfg m pluginResponse
          else if strictEqStr ty ''goto-definition'' then
            gotoDefinitionResponse m pluginResponse
          else if strictEqStr ty ''completion-provider'' then
            completionProviderResponse m pluginResponse
          else if strictEqStr ty ''completion-provider-item-selected'' then
            completionItemSelectedResponse m pluginResponse
          else if strictEqStr ty ''set-errors'' then
            setErrorsResponse m pluginResponse
          else if strictEqStr ty ''format'' then
            emitPayload m ''format'' pluginResponse
          else if strictEqStr ty ''execute-shell-command'' then
            emitPayload m ''execute-shell-command'' pluginResponse
          else if strictEqStr ty ''evaluate-block-result'' then
            emitPayload m ''evaluate-block-result'' pluginResponse
          else if strictEqStr ty ''set-syntax-highlights'' then
            emitPayload m ''set-syntax-highlights'' pluginResponse
          else if strictEqStr ty ''clear-syntax-highlights'' then
            emitPayload m ''clear-syntax-highlights'' pluginResponse
          else if strictEqStr ty ''signature-help-response'' then
            signatureHelpResponse m pluginResponse
          else (m, [], Returned))"

text \<open>
  A function given to \<open>setTimeout\<close> runs: on the manager as it is then. The delayed
  quick-info validates the origin again and reads the payload only then.
\<close>

fun runCallback :: "manager \<Rightarrow> callback \<Rightarrow> outcome" where
  "runCallback m (ShowQuickInfoIfCurrent pluginResponse) =
     whenOriginMatches m pluginResponse
       (case getProp pluginResponse ''payload'' of
          Inl e \<Rightarrow> (m, [], Threw e)
        | Inr payload \<Rightarrow>
       (case getProp payload ''info'' of
          Inl e \<Rightarrow> (m, [], Threw e)
        | Inr info \<Rightarrow>
       (case getProp payload ''documentation'' of
          Inl e \<Rightarrow> (m, [], Threw e)
        | Inr documentation \<Rightarrow>
            (m, [UI_showQuickInfo info documentation], Returned))))"
| "runCallback m HideQuickInfo = (m, [UI_hideQuickInfo], Returned)"
| "runCallback m (ShowCompletions pluginResponse) =
     (case getProp pluginResponse ''payload'' of
        Inl e \<Rightarrow> (m, [], Threw e)
      | Inr payload \<Rightarrow> (m, [UI_showCompletions payload], Returned))"
| "runCallback m (SetDetailedCompletionEntry pluginResponse) =
     (case getProp pluginResponse ''payload'' of
        Inl e \<Rightarrow> (m, [], Threw e)
      | Inr payload \<Rightarrow>
     (case getProp payload ''details'' of
        Inl e \<Rightarrow> (m, [], Threw e)
      | Inr details \<Rightarrow> (m, [UI_setDetailedCompletionEntry details], Returned)))"

subsection \<open>Events from the editor and requests to plugins\<close>

text \<open>One statement after another: the second runs when the first has returned.\<close>

fun andThen :: "outcome \<Rightarrow> (manager \<Rightarrow> outcome) \<Rightarrow> outcome" where
  "andThen (m, acts, Returned) f =
     (case f m of (m', acts', c) \<Rightarrow> (m', acts @ acts', c))"
| "andThen (m, acts, Threw e) f = (m, acts, Threw e)"

text \<open>
  \<open>_sendLanguageServiceRequest\<close>. The capability defaults to the request's name when
  it is left out or empty (\<open>||\<close>), the additional arguments to none. The context is
  \<open>_lastEventContext\<close> for some callers, so it can be \<open>undefined\<close>, and reading its
  filetype throws then.
\<close>

definition sendLanguageServiceRequest ::
  "manager \<Rightarrow> string \<Rightarrow> EventContext option \<Rightarrow> string option
     \<Rightarrow> (string \<times> jsval) list option \<Rightarrow> outcome" where
  "sendLanguageServiceRequest m requestName eventContext languageServiceCapability
       additionalArgs =
     (let capability =
            (case languageServiceCapability of
               None \<Rightarrow> requestName
             | Some c \<Rightarrow> if c = [] then requestName else c);
          args = (case additionalArgs of None \<Rightarrow> [] | Some a \<Rightarrow> a)
      in case eventContext of
           None \<Rightarrow> (m, [], Threw TypeError)
         | Some ctx \<Rightarrow>
             (m, [Host_send (RequestMessage requestName ctx args)
                    (Some (CreatePluginFilter (filetype ctx)
                             (LanguageService [capability]) True))],
              Returned))"

definition onBufferUpdate :: "manager \<Rightarrow> EventContext \<Rightarrow> string list \<Rightarrow> outcome" where
  "onBufferUpdate m eventContext bufferLines =
     (m\<lparr>lastBufferInfo :=
          Some \<lparr>lines = bufferLines,
                version = EventContext.version eventContext,
                fileName = bufferFullPath eventContext\<rparr>\<rparr>,
      [Host_send (BufferUpdateMessage eventContext bufferLines)
         (Some (CreatePluginFilter (filetype eventContext)
                  (Subscriptions [''buffer-update'']) False))],
      Returned)"

definition onEvent :: "config \<Rightarrow> manager \<Rightarrow> string \<Rightarrow> EventContext \<Rightarrow> outcome" where
  "onEvent cfg m eventName eventContext =
     andThen
       (m\<lparr>lastEventContext := Some eventContext\<rparr>,
        [Host_send (EventMessage eventName eventContext)
           (Some (CreatePluginFilter (filetype eventContext)
                    (Subscriptions [''vim-events'']) False))],
        Returned)
       (\<lambda>m1.
          if eventName = ''CursorMoved'' \<and> quickInfoEnabled cfg then
            sendLanguageServiceRequest m1 ''quick-info'' (Some eventContext) None None
          else if eventName = ''CursorMovedI'' \<and> completionsEnabled cfg then
            andThen
              (sendLanguageServiceRequest m1 ''completion-provider'' (Some eventContext)
                 None None)
              (\<lambda>m2. sendLanguageServiceRequest m2 ''signature-help'' (Some eventContext)
                 None None)
          else (m1, [], Returned))"

definition currentBuffer :: "manager \<Rightarrow> IBufferInfo option" where
  "currentBuffer m = lastBufferInfo m"

definition gotoDefinition :: "manager \<Rightarrow> outcome" where
  "gotoDefinition m =
     sendLanguageServiceRequest m ''goto-definition'' (lastEventContext m) None None"

definition requestFormat :: "manager \<Rightarrow> outcome" where
  "requestFormat m =
     sendLanguageServiceRequest m ''format'' (lastEventContext m) (Some ''formatting'') None"

definition requestEvaluateBlock :: "manager \<Rightarrow> string \<Rightarrow> string \<Rightarrow> string \<Rightarrow> outcome" where
  "requestEvaluateBlock m ident file code =
     sendLanguageServiceRequest m ''evaluate-block'' (lastEventContext m)
       (Some ''evaluate-block'')
       (Some [(''id'', JStr ident), (''fileName'', JStr file), (''code'', JStr code)])"

definition notifyCompletionItemSelected :: "manager \<Rightarrow> jsval \<Rightarrow> outcome" where
  "notifyCompletionItemSelected m completionItem =
     sendLanguageServiceRequest m ''completion-provider-item-selected''
       (lastEventContext m) (Some ''completion-provider'')
       (Some [(''item'', completionItem)])"

text \<open>
  The function that \<open>_createPlugin\<close> registers for each command of a plugin: it sends
  the arguments and the last event context, with no filter.
\<close>

definition invokePluginCommand :: "manager \<Rightarrow> jsval \<Rightarrow> outcome" where
  "invokePluginCommand m args =
     (m, [Host_send (CommandMessage args (lastEventContext m)) None], Returned)"

subsection \<open>Which plugins a filter lets through\<close>

text \<open>
  Modelled from the spec: \<open>Capabilities.createPluginFilter\<close> and the capabilities
  a plugin declares are in Api/Capabilities, outside this file. After section 4.1 of
  the specification: a plugin declares the subscriptions it wants, the language-service
  capabilities it implements, and the filetypes it is scoped to (\<open>None\<close> is the
  universal scope). A subscription requirement matches iff the plugin's subscriptions
  contain its name; a language-service requirement matches iff the plugin declares the
  capability and the event's filetype is in the plugin's scope.
\<close>

record pluginCapabilities =
  declaredSubscriptions :: "string list"
  declaredLanguageService :: "string list"
  declaredFiletypes :: "string list option"

fun filterMatches :: "pluginCapabilities \<Rightarrow> pluginFilter \<Rightarrow> bool" where
  "filterMatches p (CreatePluginFilter ft (Subscriptions names) b) =
     list_all (\<lambda>n. List.member (declaredSubscriptions p) n) names"
| "filterMatches p (CreatePluginFilter ft (LanguageService names) b) =
     (list_all (\<lambda>n. List.member (declaredLanguageService p) n) names
      \<and> (case declaredFiletypes p of None \<Rightarrow> True | Some fts \<Rightarrow> List.member fts ft))"

subsection \<open>Scenarios\<close>

text \<open>
  Concrete inputs, after the scenarios of the specification: the cursor at line 4,
  column 2 of /a.ts, and responses that answer a request sent from there.
\<close>

definition scenarioContext :: EventContext where
  "scenarioContext =
     \<lparr>bufferFullPath = ''/a.ts'', line = 4, column = 2, byte = 30,
      filetype = ''typescript'', version = 7\<rparr>"

definition scenarioOrigin :: jsval where
  "scenarioOrigin =
     JObj [(''bufferFullPath'', JStr ''/a.ts''), (''line'', JNum 4), (''column'', JNum 2)]"

definition scenarioMeta :: jsval where
  "scenarioMeta = JObj [(''originEvent'', scenarioOrigin)]"

definition scenarioManager :: "EventContext \<Rightarrow> manager" where
  "scenarioManager ctx = \<lparr>lastEventContext = Some ctx, lastBufferInfo = None\<rparr>"

definition scenarioConfig :: config where
  "scenarioConfig =
     \<lparr>quickInfoEnabled = True, completionsEnabled = True, quickInfoDelay = 500\<rparr>"

definition gotoDefinitionScenario :: jsval where
  "gotoDefinitionScenario =
     JObj [(''type'', JStr ''goto-definition''),
           (''meta'', scenarioMeta),
           (''payload'', JObj [(''filePath'', JStr ''/b.ts''), (''line'', JNum 10),
                               (''column'', JNum 3)])]"

definition movedContext :: EventContext where
  "movedContext = scenarioContext\<lparr>line := 5\<rparr>"

definition itemSelectedScenario :: jsval where
  "itemSelectedScenario =
     JObj [(''type'', JStr ''completion-provider-item-selected''),
           (''meta'', scenarioMeta),
           (''payload'', JObj [(''details'', JStr ''function f(): void'')])]"

definition missingMetaScenario :: jsval where
  "missingMetaScenario =
     JObj [(''type'', JStr ''goto-definition''),
           (''payload'', JObj [(''filePath'', JStr ''/b.ts''), (''line'', JNum 10),
                               (''column'', JNum 3)])]"

definition missingPayloadScenario :: jsval where
  "missingPayloadScenario =
     JObj [(''type'', JStr ''goto-definition''), (''meta'', scenarioMeta)]"

definition unwritableLineScenario :: jsval where
  "unwritableLineScenario =
     JObj [(''type'', JStr ''goto-definition''),
           (''meta'', scenarioMeta),
           (''payload'', JObj [(''filePath'', JStr ''/b.ts''),
                               (''line'', JObj [(''toString'', JNum 1)]),
                               (''column'', JNum 3)])]"

definition quickInfoScenario :: jsval where
  "quickInfoScenario =
     JObj [(''type'', JStr ''show-quick-info''),
           (''meta'', scenarioMeta),
           (''payload'', JObj [(''info'', JStr ''const x: number''),
                               (''documentation'', JStr ''The x.'')])]"

definition unrecognizedScenario :: jsval where
  "unrecognizedScenario = JObj [(''type'', JStr ''unrecognized-xyz'')]"

definition errorScenario :: jsval where
  "errorScenario =
     JObj [(''type'', JStr ''show-quick-info''),
           (''meta'', scenarioMeta),
           (''error'', JStr ''no symbol here'')]"

section \<open>Properties\<close>

subsection \<open>Reading values and validating the origin\<close>

lemma js_error_eq [simp]: "(e::js_error) = TypeError"
  by (cases e)

lemma getProp_present: "v \<noteq> JUndefined \<Longrightarrow> v \<noteq> JNull \<Longrightarrow> \<exists>x. getProp v name = Inr x"
  by (cases v) (simp_all split: option.splits)

lemma validate_cases:
  "validateOriginEventMatchesCurrentEvent m r = ([], Inl TypeError)
   \<or> validateOriginEventMatchesCurrentEvent m r = ([], Inr True)
   \<or> validateOriginEventMatchesCurrentEvent m r = ([Console_log abortedMessage], Inr False)"
  by (cases "getProp r ''meta''")
     (auto simp: validateOriginEventMatchesCurrentEvent_def split: sum.splits option.splits)

lemma validate_match:
  assumes "lastEventContext m = Some cur"
    and "getProp r ''meta'' = Inr meta"
    and "getProp meta ''originEvent'' = Inr originEvent"
    and "getProp originEvent ''bufferFullPath'' = Inr (JStr (bufferFullPath cur))"
    and "getProp originEvent ''line'' = Inr (JNum (line cur))"
    and "getProp originEvent ''column'' = Inr (JNum (column cur))"
  shows "validateOriginEventMatchesCurrentEvent m r = ([], Inr True)"
  using assms
  by (simp add: validateOriginEventMatchesCurrentEvent_def strictEqStr_def strictEqNum_def)

lemma validate_mismatch:
  assumes "lastEventContext m = Some cur"
    and "getProp r ''meta'' = Inr meta"
    and "getProp meta ''originEvent'' = Inr originEvent"
    and "originEvent \<noteq> JUndefined" and "originEvent \<noteq> JNull"
    and "getProp originEvent ''bufferFullPath'' \<noteq> Inr (JStr (bufferFullPath cur))
         \<or> getProp originEvent ''line'' \<noteq> Inr (JNum (line cur))
         \<or> getProp originEvent ''column'' \<noteq> Inr (JNum (column cur))"
  shows "validateOriginEventMatchesCurrentEvent m r = ([Console_log abortedMessage], Inr False)"
proof -
  obtain p where p: "getProp originEvent ''bufferFullPath'' = Inr p"
    using getProp_present [OF assms(4,5)] by blast
  obtain l where l: "getProp originEvent ''line'' = Inr l"
    using getProp_present [OF assms(4,5)] by blast
  obtain c where c: "getProp originEvent ''column'' = Inr c"
    using getProp_present [OF assms(4,5)] by blast
  from assms(6) p l c have "p \<noteq> JStr (bufferFullPath cur) \<or> l \<noteq> JNum (line cur) \<or> c \<noteq> JNum (column cur)"
    by simp
  then show ?thesis
    using assms(1,2,3) p l c
    by (auto simp add: validateOriginEventMatchesCurrentEvent_def strictEqStr_def strictEqNum_def)
qed

lemma validate_missing:
  assumes "getProp r ''meta'' = Inr meta"
    and "getProp meta ''originEvent'' = Inl e
         \<or> getProp meta ''originEvent'' = Inr JUndefined
         \<or> getProp meta ''originEvent'' = Inr JNull"
  shows "validateOriginEventMatchesCurrentEvent m r = ([], Inl TypeError)"
  using assms
  by (auto simp add: validateOriginEventMatchesCurrentEvent_def)

lemma whenOriginMatches_state: "fst rest = m \<Longrightarrow> fst (whenOriginMatches m r rest) = m"
  by (cases rest) (simp add: whenOriginMatches_def split: prod.splits sum.splits)

lemma whenOriginMatches_stale:
  "validateOriginEventMatchesCurrentEvent m r = (log, Inr False) \<Longrightarrow>
   whenOriginMatches m r rest = (m, log, Returned)"
  by (simp add: whenOriginMatches_def)

lemma whenOriginMatches_fresh:
  "validateOriginEventMatchesCurrentEvent m r = ([], Inr True) \<Longrightarrow>
   whenOriginMatches m r rest = rest"
  by (cases rest) (simp add: whenOriginMatches_def)

lemma whenOriginMatches_throws:
  "validateOriginEventMatchesCurrentEvent m r = (log, Inl e) \<Longrightarrow>
   whenOriginMatches m r rest = (m, log, Threw e)"
  by (simp add: whenOriginMatches_def)

lemma showQuickInfo_state: "fst (showQuickInfoResponse cfg m r) = m"
  unfolding showQuickInfoResponse_def by (rule whenOriginMatches_state) (simp split: sum.splits)
lemma gotoDefinition_state: "fst (gotoDefinitionResponse m r) = m"
  unfolding gotoDefinitionResponse_def by (rule whenOriginMatches_state) (simp split: sum.splits)
lemma completionProvider_state: "fst (completionProviderResponse m r) = m"
  unfolding completionProviderResponse_def by (rule whenOriginMatches_state) (simp split: sum.splits)
lemma setErrors_state: "fst (setErrorsResponse m r) = m"
  by (simp add: setErrorsResponse_def split: sum.splits)
lemma emitPayload_state: "fst (emitPayload m n r) = m"
  by (simp add: emitPayload_def split: sum.splits)
lemma signatureHelp_state: "fst (signatureHelpResponse m r) = m"
  by (simp add: signatureHelpResponse_def split: sum.splits)

lemma handle_state: "fst (handlePluginResponse cfg m r) = m"
  by (simp add: handlePluginResponse_def showQuickInfo_state gotoDefinition_state completionProvider_state
     setErrors_state emitPayload_state signatureHelp_state completionItemSelectedResponse_def split: sum.splits)

lemma runCallback_state: "fst (runCallback m cb) = m"
  by (cases cb) (simp_all add: whenOriginMatches_state split: sum.splits)

lemma send_state: "fst (sendLanguageServiceRequest m n c cap args) = m"
  by (simp add: sendLanguageServiceRequest_def Let_def split: option.splits)

lemma handle_branch:
  "getProp r ''type'' = Inr (JStr ''show-quick-info'') \<Longrightarrow>
     handlePluginResponse cfg m r = showQuickInfoResponse cfg m r"
  "getProp r ''type'' = Inr (JStr ''goto-definition'') \<Longrightarrow>
     handlePluginResponse cfg m r = gotoDefinitionResponse m r"
  "getProp r ''type'' = Inr (JStr ''completion-provider'') \<Longrightarrow>
     handlePluginResponse cfg m r = completionProviderResponse m r"
  "getProp r ''type'' = Inr (JStr ''completion-provider-item-selected'') \<Longrightarrow>
     handlePluginResponse cfg m r = completionItemSelectedResponse m r"
  by (simp_all add: handlePluginResponse_def strictEqStr_def)

lemma scenario_reads:
  "getProp gotoDefinitionScenario ''type'' = Inr (JStr ''goto-definition'')"
  "getProp gotoDefinitionScenario ''meta'' = Inr scenarioMeta"
  "getProp scenarioMeta ''originEvent'' = Inr scenarioOrigin"
  "getProp scenarioOrigin ''bufferFullPath'' = Inr (JStr ''/a.ts'')"
  "getProp scenarioOrigin ''line'' = Inr (JNum 4)"
  "getProp scenarioOrigin ''column'' = Inr (JNum 2)"
  by (simp_all add: gotoDefinitionScenario_def scenarioMeta_def scenarioOrigin_def)

lemma runCallback_shows_only_if_valid:
  assumes "runCallback m' (ShowQuickInfoIfCurrent r) = (m'', acts, c)"
    and "UI_showQuickInfo i d \<in> set acts"
  shows "validateOriginEventMatchesCurrentEvent m' r = ([], Inr True)"
  using validate_cases [of m' r] assms
  by (auto simp add: whenOriginMatches_def abortedMessage_def)

lemma validate_true_current:
  assumes "validateOriginEventMatchesCurrentEvent m r = ([], Inr True)"
    and "getProp r ''meta'' = Inr meta"
    and "getProp meta ''originEvent'' = Inr originEvent"
  shows "\<exists>cur. lastEventContext m = Some cur
           \<and> getProp originEvent ''bufferFullPath'' = Inr (JStr (bufferFullPath cur))
           \<and> getProp originEvent ''line'' = Inr (JNum (line cur))
           \<and> getProp originEvent ''column'' = Inr (JNum (column cur))"
  using assms
  by (auto simp add: validateOriginEventMatchesCurrentEvent_def strictEqStr_def strictEqNum_def
      split: sum.splits option.splits if_splits)

subsection \<open>Stale responses\<close>

text \<open>
  Claim C1 (staleness rejection). The manager has a current event context, and a
  response of type show-quick-info, goto-definition or completion-provider carries an
  origin event that differs from it in the buffer path, the line or the column. Then
  handling the response leaves the manager as it was and does nothing but write the
  diagnostic log: no call of the UI, no editor command, no emitted event, no timer.
\<close>
theorem stale_response_rejected:
  assumes "lastEventContext m = Some cur"
    and "getProp r ''type'' = Inr (JStr ty)"
    and "ty \<in> {''show-quick-info'', ''goto-definition'', ''completion-provider''}"
    and "getProp r ''meta'' = Inr meta"
    and "getProp meta ''originEvent'' = Inr originEvent"
    and "originEvent \<noteq> JUndefined" and "originEvent \<noteq> JNull"
    and "getProp originEvent ''bufferFullPath'' \<noteq> Inr (JStr (bufferFullPath cur))
         \<or> getProp originEvent ''line'' \<noteq> Inr (JNum (line cur))
         \<or> getProp originEvent ''column'' \<noteq> Inr (JNum (column cur))"
  shows "handlePluginResponse cfg m r = (m, [Console_log abortedMessage], Returned)"
proof -
  have stale: "validateOriginEventMatchesCurrentEvent m r = ([Console_log abortedMessage], Inr False)"
    using assms(1,4-8) by (rule validate_mismatch)
  from assms(3) consider "ty = ''show-quick-info''" | "ty = ''goto-definition''"
    | "ty = ''completion-provider''" by blast
  then show ?thesis
  proof cases
    case 1
    with assms(2) have "handlePluginResponse cfg m r = showQuickInfoResponse cfg m r"
      by (simp add: handle_branch)
    then show ?thesis
      by (simp add: showQuickInfoResponse_def whenOriginMatches_stale [OF stale])
  next
    case 2
    with assms(2) have "handlePluginResponse cfg m r = gotoDefinitionResponse m r"
      by (simp add: handle_branch)
    then show ?thesis
      by (simp add: gotoDefinitionResponse_def whenOriginMatches_stale [OF stale])
  next
    case 3
    with assms(2) have "handlePluginResponse cfg m r = completionProviderResponse m r"
      by (simp add: handle_branch)
    then show ?thesis
      by (simp add: completionProviderResponse_def whenOriginMatches_stale [OF stale])
  qed
qed

theorem stale_response_rejected_witness:
  "handlePluginResponse scenarioConfig (scenarioManager movedContext) gotoDefinitionScenario =
   (scenarioManager movedContext, [Console_log abortedMessage], Returned)"
  using stale_response_rejected [of "scenarioManager movedContext" movedContext
      gotoDefinitionScenario "''goto-definition''" scenarioMeta scenarioOrigin scenarioConfig]
  by (simp add: scenario_reads scenarioManager_def movedContext_def scenarioContext_def
      scenarioOrigin_def)

subsection \<open>Fresh responses\<close>

text \<open>
  Claim C2 (staleness acceptance for goto-definition), as amended. The manager has a
  current event context, and a response of type goto-definition carries an origin event
  with the same buffer path, line and column. When the response has a payload whose
  filePath, line and column can be written into a string, handling it issues exactly
  three editor commands, in this order: open the payload's file, go to the payload's
  line and column, centre the view; nothing else happens and the manager is unchanged.
  When the payload is \<open>undefined\<close> or \<open>null\<close>, handling it throws a TypeError and
  issues no command.
\<close>
theorem goto_definition_commands:
  assumes "lastEventContext m = Some cur"
    and "getProp r ''type'' = Inr (JStr ''goto-definition'')"
    and "getProp r ''meta'' = Inr meta"
    and "getProp meta ''originEvent'' = Inr originEvent"
    and "getProp originEvent ''bufferFullPath'' = Inr (JStr (bufferFullPath cur))"
    and "getProp originEvent ''line'' = Inr (JNum (line cur))"
    and "getProp originEvent ''column'' = Inr (JNum (column cur))"
    and "getProp r ''payload'' = Inr payload"
  shows "(\<forall>filePath l c filePathText lineText columnText.
            getProp payload ''filePath'' = Inr filePath \<longrightarrow>
            getProp payload ''line'' = Inr l \<longrightarrow>
            getProp payload ''column'' = Inr c \<longrightarrow>
            toString filePath = Inr filePathText \<longrightarrow>
            toString l = Inr lineText \<longrightarrow>
            toString c = Inr columnText \<longrightarrow>
            handlePluginResponse cfg m r =
              (m, [Neovim_command (''e! '' @ filePathText),
                   Neovim_command (''keepjumps norm '' @ lineText @ ''G'' @ columnText),
                   Neovim_command ''norm zz''], Returned))
         \<and> (payload = JUndefined \<or> payload = JNull \<longrightarrow>
               handlePluginResponse cfg m r = (m, [], Threw TypeError))"
proof -
  have fresh: "validateOriginEventMatchesCurrentEvent m r = ([], Inr True)"
    using assms(1,3-7) by (rule validate_match)
  have branch: "handlePluginResponse cfg m r = gotoDefinitionResponse m r"
    using assms(2) by (simp add: handle_branch)
  have body: "handlePluginResponse cfg m r =
      (case getProp payload ''filePath'' of
         Inl e \<Rightarrow> (m, [], Threw e)
       | Inr filePath \<Rightarrow>
      (case getProp payload ''line'' of
         Inl e \<Rightarrow> (m, [], Threw e)
       | Inr l \<Rightarrow>
      (case getProp payload ''column'' of
         Inl e \<Rightarrow> (m, [], Threw e)
       | Inr c \<Rightarrow>
      (case toString filePath of
         Inl e \<Rightarrow> (m, [], Threw e)
       | Inr filePathText \<Rightarrow>
      (case toString l of
         Inl e \<Rightarrow> (m, [Neovim_command (''e! '' @ filePathText)], Threw e)
       | Inr lineText \<Rightarrow>
      (case toString c of
         Inl e \<Rightarrow> (m, [Neovim_command (''e! '' @ filePathText)], Threw e)
       | Inr columnText \<Rightarrow>
           (m, [Neovim_command (''e! '' @ filePathText),
                Neovim_command (''keepjumps norm '' @ lineText @ ''G'' @ columnText),
                Neovim_command ''norm zz''], Returned)))))))"
    using assms(8)
    by (simp add: branch gotoDefinitionResponse_def whenOriginMatches_fresh [OF fresh])
  show ?thesis
  proof (intro conjI allI impI)
    fix filePath l c filePathText lineText columnText
    assume "getProp payload ''filePath'' = Inr filePath" "getProp payload ''line'' = Inr l"
      "getProp payload ''column'' = Inr c" "toString filePath = Inr filePathText"
      "toString l = Inr lineText" "toString c = Inr columnText"
    then show "handlePluginResponse cfg m r =
        (m, [Neovim_command (''e! '' @ filePathText),
             Neovim_command (''keepjumps norm '' @ lineText @ ''G'' @ columnText),
             Neovim_command ''norm zz''], Returned)"
      by (simp add: body)
  next
    assume "payload = JUndefined \<or> payload = JNull"
    then show "handlePluginResponse cfg m r = (m, [], Threw TypeError)"
      by (auto simp add: body)
  qed
qed

theorem goto_definition_commands_witness:
  "handlePluginResponse scenarioConfig (scenarioManager scenarioContext)
     gotoDefinitionScenario =
   (scenarioManager scenarioContext,
    [Neovim_command ''e! /b.ts'', Neovim_command ''keepjumps norm 10G3'',
     Neovim_command ''norm zz''], Returned)
   \<and> handlePluginResponse scenarioConfig (scenarioManager scenarioContext)
       missingPayloadScenario =
     (scenarioManager scenarioContext, [], Threw TypeError)"
proof -
  have current: "lastEventContext (scenarioManager scenarioContext) = Some scenarioContext"
    by (simp add: scenarioManager_def)
  have origin:
    "getProp scenarioOrigin ''bufferFullPath'' = Inr (JStr (bufferFullPath scenarioContext))"
    "getProp scenarioOrigin ''line'' = Inr (JNum (line scenarioContext))"
    "getProp scenarioOrigin ''column'' = Inr (JNum (column scenarioContext))"
    by (simp_all add: scenarioOrigin_def scenarioContext_def)
  have payload: "getProp gotoDefinitionScenario ''payload'' =
      Inr (JObj [(''filePath'', JStr ''/b.ts''), (''line'', JNum 10), (''column'', JNum 3)])"
    by (simp add: gotoDefinitionScenario_def)
  have texts: "toString (JNum 10) = Inr ''10''" "toString (JNum 3) = Inr ''3''"
    by (simp_all add: numberToString_def)
  have "handlePluginResponse scenarioConfig (scenarioManager scenarioContext)
          gotoDefinitionScenario =
        (scenarioManager scenarioContext,
         [Neovim_command ''e! /b.ts'', Neovim_command ''keepjumps norm 10G3'',
          Neovim_command ''norm zz''], Returned)"
    using goto_definition_commands [OF current scenario_reads(1,2,3) origin payload,
        of scenarioConfig] texts
    by simp
  moreover have "handlePluginResponse scenarioConfig (scenarioManager scenarioContext)
          missingPayloadScenario =
        (scenarioManager scenarioContext, [], Threw TypeError)"
  proof -
    have absent:
      "getProp missingPayloadScenario ''type'' = Inr (JStr ''goto-definition'')"
      "getProp missingPayloadScenario ''meta'' = Inr scenarioMeta"
      "getProp missingPayloadScenario ''payload'' = Inr JUndefined"
      by (simp_all add: missingPayloadScenario_def)
    from goto_definition_commands [OF current absent(1,2) scenario_reads(3) origin absent(3),
        of scenarioConfig]
    show ?thesis by simp
  qed
  ultimately show ?thesis by simp
qed

text \<open>
  Claim C2 as it was stated fails: the response below has the current origin and no
  payload, and handling it throws before any editor command.
\<close>
theorem goto_definition_missing_payload_counterexample:
  "validateOriginEventMatchesCurrentEvent (scenarioManager scenarioContext)
     missingPayloadScenario = ([], Inr True)
   \<and> handlePluginResponse scenarioConfig (scenarioManager scenarioContext)
       missingPayloadScenario =
     (scenarioManager scenarioContext, [], Threw TypeError)"
  by (simp add: handlePluginResponse_def gotoDefinitionResponse_def whenOriginMatches_def
      validateOriginEventMatchesCurrentEvent_def missingPayloadScenario_def scenarioMeta_def
      scenarioOrigin_def scenarioManager_def scenarioContext_def strictEqStr_def
      strictEqNum_def)

text \<open>
  A line that cannot be written into a string: the file is opened, and building the
  second command throws.
\<close>

lemma goto_definition_throws_after_first_command:
  "handlePluginResponse scenarioConfig (scenarioManager scenarioContext)
     unwritableLineScenario =
   (scenarioManager scenarioContext, [Neovim_command ''e! /b.ts''], Threw TypeError)"
  by (simp add: handlePluginResponse_def gotoDefinitionResponse_def whenOriginMatches_def
      validateOriginEventMatchesCurrentEvent_def unwritableLineScenario_def scenarioMeta_def
      scenarioOrigin_def scenarioManager_def scenarioContext_def strictEqStr_def
      strictEqNum_def)

subsection \<open>Responses that are not validated, or cannot be\<close>

text \<open>
  Claim C3 (stale completion-provider-item-selected). A response of this type whose
  origin event is not the current one is to be discarded, as the sibling branches
  discard theirs. The branch calls no validation. The response below answers a request
  sent from line 4, the cursor is on line 5 by now, and the manager's own validation
  calls the response stale; handling it still defers the call of the UI, and the
  deferred function hands the details to the UI.
\<close>
theorem item_selected_stale_applied:
  "validateOriginEventMatchesCurrentEvent (scenarioManager movedContext) itemSelectedScenario =
     ([Console_log abortedMessage], Inr False)
   \<and> handlePluginResponse scenarioConfig (scenarioManager movedContext) itemSelectedScenario =
     (scenarioManager movedContext,
      [SetTimeout (SetDetailedCompletionEntry itemSelectedScenario) None], Returned)
   \<and> runCallback (scenarioManager movedContext) (SetDetailedCompletionEntry itemSelectedScenario) =
     (scenarioManager movedContext,
      [UI_setDetailedCompletionEntry (JStr ''function f(): void'')], Returned)"
  by (simp add: validateOriginEventMatchesCurrentEvent_def handlePluginResponse_def
      completionItemSelectedResponse_def itemSelectedScenario_def scenarioMeta_def
      scenarioOrigin_def scenarioManager_def movedContext_def scenarioContext_def
      strictEqStr_def strictEqNum_def)

text \<open>
  Claim C4, as amended. A response of an origin-checked type that has no origin event
  (no meta object, or a meta object without one) makes the handling throw a TypeError
  out of the origin check, before any effect: no call of the UI, no editor command, no
  emitted event, no log, and the manager unchanged. And whatever the response is,
  whether the handling returns or throws, the manager's state is what it was.
\<close>
theorem missing_origin_throws:
  assumes "getProp r ''type'' = Inr (JStr ty)"
    and "ty \<in> {''show-quick-info'', ''goto-definition'', ''completion-provider''}"
    and "getProp r ''meta'' = Inr meta"
    and "getProp meta ''originEvent'' = Inl e
         \<or> getProp meta ''originEvent'' = Inr JUndefined
         \<or> getProp meta ''originEvent'' = Inr JNull"
  shows "handlePluginResponse cfg m r = (m, [], Threw TypeError)
         \<and> (\<forall>r'. fst (handlePluginResponse cfg m r') = m)"
proof -
  have missing: "validateOriginEventMatchesCurrentEvent m r = ([], Inl TypeError)"
    using assms(3,4) by (rule validate_missing)
  from assms(2) consider "ty = ''show-quick-info''" | "ty = ''goto-definition''"
    | "ty = ''completion-provider''" by blast
  then have "handlePluginResponse cfg m r = (m, [], Threw TypeError)"
  proof cases
    case 1
    with assms(1) have "handlePluginResponse cfg m r = showQuickInfoResponse cfg m r"
      by (simp add: handle_branch)
    then show ?thesis
      by (simp add: showQuickInfoResponse_def whenOriginMatches_throws [OF missing])
  next
    case 2
    with assms(1) have "handlePluginResponse cfg m r = gotoDefinitionResponse m r"
      by (simp add: handle_branch)
    then show ?thesis
      by (simp add: gotoDefinitionResponse_def whenOriginMatches_throws [OF missing])
  next
    case 3
    with assms(1) have "handlePluginResponse cfg m r = completionProviderResponse m r"
      by (simp add: handle_branch)
    then show ?thesis
      by (simp add: completionProviderResponse_def whenOriginMatches_throws [OF missing])
  qed
  moreover have "\<forall>r'. fst (handlePluginResponse cfg m r') = m"
    by (simp add: handle_state)
  ultimately show ?thesis by blast
qed

theorem missing_origin_throws_witness:
  "handlePluginResponse scenarioConfig (scenarioManager scenarioContext) missingMetaScenario =
     (scenarioManager scenarioContext, [], Threw TypeError)"
  using missing_origin_throws [of missingMetaScenario "''goto-definition''" JUndefined TypeError
      scenarioConfig "scenarioManager scenarioContext"]
  by (simp add: missingMetaScenario_def)

text \<open>
  Claim C4 as it was stated fails: a goto-definition response without a meta object
  is not discarded as a failed match, the handling throws.
\<close>
theorem missing_meta_counterexample:
  "handlePluginResponse scenarioConfig (scenarioManager scenarioContext) missingMetaScenario =
     (scenarioManager scenarioContext, [], Threw TypeError)"
  by (simp add: handlePluginResponse_def gotoDefinitionResponse_def whenOriginMatches_def
      validateOriginEventMatchesCurrentEvent_def missingMetaScenario_def strictEqStr_def)

subsection \<open>Quick info\<close>

text \<open>
  Claim C5 (show-quick-info). A response of type show-quick-info arrives with an
  origin that matches the current context. Without an error, the quick-info is hidden
  at once and a function is scheduled after the configured delay; when that function
  runs it shows the payload's info and documentation if the context the manager has
  then still matches, and it shows something only if that context matches. With an
  error, the only thing done is a deferred hiding of the quick-info.
\<close>
theorem quick_info_handling:
  assumes "lastEventContext m = Some cur"
    and "getProp r ''type'' = Inr (JStr ''show-quick-info'')"
    and "getProp r ''meta'' = Inr meta"
    and "getProp meta ''originEvent'' = Inr originEvent"
    and "getProp originEvent ''bufferFullPath'' = Inr (JStr (bufferFullPath cur))"
    and "getProp originEvent ''line'' = Inr (JNum (line cur))"
    and "getProp originEvent ''column'' = Inr (JNum (column cur))"
    and "getProp r ''error'' = Inr err"
  shows "(\<not> truthy err \<longrightarrow>
            handlePluginResponse cfg m r =
              (m, [UI_hideQuickInfo,
                   SetTimeout (ShowQuickInfoIfCurrent r) (Some (quickInfoDelay cfg))],
               Returned))
         \<and> (\<forall>m' cur' payload info documentation.
               lastEventContext m' = Some cur' \<longrightarrow>
               bufferFullPath cur' = bufferFullPath cur \<longrightarrow>
               line cur' = line cur \<longrightarrow>
               column cur' = column cur \<longrightarrow>
               getProp r ''payload'' = Inr payload \<longrightarrow>
               getProp payload ''info'' = Inr info \<longrightarrow>
               getProp payload ''documentation'' = Inr documentation \<longrightarrow>
               runCallback m' (ShowQuickInfoIfCurrent r) =
                 (m', [UI_showQuickInfo info documentation], Returned))
         \<and> (\<forall>m' m'' acts c info documentation.
               runCallback m' (ShowQuickInfoIfCurrent r) = (m'', acts, c) \<longrightarrow>
               UI_showQuickInfo info documentation \<in> set acts \<longrightarrow>
               (\<exists>cur'. lastEventContext m' = Some cur'
                  \<and> bufferFullPath cur' = bufferFullPath cur
                  \<and> line cur' = line cur \<and> column cur' = column cur))
         \<and> (truthy err \<longrightarrow>
               handlePluginResponse cfg m r = (m, [SetTimeout HideQuickInfo None], Returned))
         \<and> (\<forall>m'. runCallback m' HideQuickInfo = (m', [UI_hideQuickInfo], Returned))"
proof -
  have fresh: "validateOriginEventMatchesCurrentEvent m r = ([], Inr True)"
    using assms(1,3-7) by (rule validate_match)
  have branch: "handlePluginResponse cfg m r = showQuickInfoResponse cfg m r"
    using assms(2) by (simp add: handle_branch)
  have arrival: "handlePluginResponse cfg m r =
      (if \<not> truthy err
       then (m, [UI_hideQuickInfo,
                 SetTimeout (ShowQuickInfoIfCurrent r) (Some (quickInfoDelay cfg))], Returned)
       else (m, [SetTimeout HideQuickInfo None], Returned))"
    using assms(8)
    by (simp add: branch showQuickInfoResponse_def whenOriginMatches_fresh [OF fresh])
  have later: "runCallback m' (ShowQuickInfoIfCurrent r) =
      (m', [UI_showQuickInfo info documentation], Returned)"
    if "lastEventContext m' = Some cur'" "bufferFullPath cur' = bufferFullPath cur"
      "line cur' = line cur" "column cur' = column cur"
      "getProp r ''payload'' = Inr payload" "getProp payload ''info'' = Inr info"
      "getProp payload ''documentation'' = Inr documentation"
    for m' cur' payload info documentation
  proof -
    have "validateOriginEventMatchesCurrentEvent m' r = ([], Inr True)"
      using that(1) assms(3,4) assms(5-7) that(2-4)
      by (simp add: validate_match)
    then show ?thesis
      using that(5-7) by (simp add: whenOriginMatches_fresh)
  qed
  have only_if: "\<exists>cur'. lastEventContext m' = Some cur'
      \<and> bufferFullPath cur' = bufferFullPath cur
      \<and> line cur' = line cur \<and> column cur' = column cur"
    if "runCallback m' (ShowQuickInfoIfCurrent r) = (m'', acts, c)"
      "UI_showQuickInfo info documentation \<in> set acts"
    for m' m'' acts c info documentation
  proof -
    have "validateOriginEventMatchesCurrentEvent m' r = ([], Inr True)"
      using that by (rule runCallback_shows_only_if_valid)
    from validate_true_current [OF this assms(3,4)] assms(5-7)
    show ?thesis by auto
  qed
  show ?thesis
    apply (intro conjI allI impI)
    subgoal using arrival by simp
    subgoal by (rule later)
    subgoal by (rule only_if)
    subgoal using arrival by simp
    subgoal by simp
    done
qed


theorem quick_info_handling_witness:
  "handlePluginResponse scenarioConfig (scenarioManager scenarioContext) quickInfoScenario =
     (scenarioManager scenarioContext,
      [UI_hideQuickInfo, SetTimeout (ShowQuickInfoIfCurrent quickInfoScenario) (Some 500)],
      Returned)
   \<and> runCallback (scenarioManager scenarioContext) (ShowQuickInfoIfCurrent quickInfoScenario) =
     (scenarioManager scenarioContext,
      [UI_showQuickInfo (JStr ''const x: number'') (JStr ''The x.'')], Returned)
   \<and> handlePluginResponse scenarioConfig (scenarioManager scenarioContext) errorScenario =
     (scenarioManager scenarioContext, [SetTimeout HideQuickInfo None], Returned)"
proof -
  have reads:
    "getProp quickInfoScenario ''type'' = Inr (JStr ''show-quick-info'')"
    "getProp quickInfoScenario ''meta'' = Inr scenarioMeta"
    "getProp quickInfoScenario ''error'' = Inr JUndefined"
    "getProp quickInfoScenario ''payload'' =
       Inr (JObj [(''info'', JStr ''const x: number''), (''documentation'', JStr ''The x.'')])"
    by (simp_all add: quickInfoScenario_def)
  have current: "lastEventContext (scenarioManager scenarioContext) = Some scenarioContext"
    by (simp add: scenarioManager_def)
  have origin:
    "getProp scenarioOrigin ''bufferFullPath'' = Inr (JStr (bufferFullPath scenarioContext))"
    "getProp scenarioOrigin ''line'' = Inr (JNum (line scenarioContext))"
    "getProp scenarioOrigin ''column'' = Inr (JNum (column scenarioContext))"
    by (simp_all add: scenarioOrigin_def scenarioContext_def)
  note h = quick_info_handling [OF current reads(1,2) scenario_reads(3) origin reads(3),
      of scenarioConfig]
  have "handlePluginResponse scenarioConfig (scenarioManager scenarioContext)
          quickInfoScenario =
        (scenarioManager scenarioContext,
         [UI_hideQuickInfo, SetTimeout (ShowQuickInfoIfCurrent quickInfoScenario) (Some 500)],
         Returned)"
    using h by (simp add: scenarioConfig_def)
  moreover have "runCallback (scenarioManager scenarioContext)
          (ShowQuickInfoIfCurrent quickInfoScenario) =
        (scenarioManager scenarioContext,
         [UI_showQuickInfo (JStr ''const x: number'') (JStr ''The x.'')], Returned)"
    using h current reads(4) by simp
  moreover have "handlePluginResponse scenarioConfig (scenarioManager scenarioContext)
          errorScenario =
        (scenarioManager scenarioContext, [SetTimeout HideQuickInfo None], Returned)"
  proof -
    have failed:
      "getProp errorScenario ''type'' = Inr (JStr ''show-quick-info'')"
      "getProp errorScenario ''meta'' = Inr scenarioMeta"
      "getProp errorScenario ''error'' = Inr (JStr ''no symbol here'')"
      by (simp_all add: errorScenario_def)
    from quick_info_handling [OF current failed(1,2) scenario_reads(3) origin failed(3),
        of scenarioConfig]
    show ?thesis by simp
  qed
  ultimately show ?thesis by simp
qed

subsection \<open>Unknown responses\<close>

text \<open>
  Claim C6 (unknown responses). A response whose type is none of the eleven types the
  handling compares with is ignored: no effect of any kind, no log, no exception, and
  the manager unchanged.
\<close>
theorem unrecognized_type_ignored:
  assumes "getProp r ''type'' = Inr ty"
    and "ty \<notin> JStr ` {''show-quick-info'', ''goto-definition'', ''completion-provider'',
           ''completion-provider-item-selected'', ''set-errors'', ''format'',
           ''execute-shell-command'', ''evaluate-block-result'', ''set-syntax-highlights'',
           ''clear-syntax-highlights'', ''signature-help-response''}"
  shows "handlePluginResponse cfg m r = (m, [], Returned)"
  using assms by (simp add: handlePluginResponse_def strictEqStr_def)

theorem unrecognized_type_ignored_witness:
  "handlePluginResponse scenarioConfig (scenarioManager scenarioContext) unrecognizedScenario =
     (scenarioManager scenarioContext, [], Returned)"
  using unrecognized_type_ignored [of unrecognizedScenario "JStr ''unrecognized-xyz''"
      scenarioConfig "scenarioManager scenarioContext"]
  by (simp add: unrecognizedScenario_def)

subsection \<open>Events and buffer updates\<close>

text \<open>
  Claim C7 (events to requests). Every event is recorded as the last event context and
  sent on to the plugins subscribed to vim-events. On CursorMoved with quick-info
  enabled exactly one request follows, quick-info with the context, for the capability
  quick-info; on CursorMovedI with completions enabled two requests follow,
  completion-provider and signature-help; in every other case none follows.
\<close>
theorem onEvent_request_policy:
  "(eventName = ''CursorMoved'' \<longrightarrow> quickInfoEnabled cfg \<longrightarrow>
      onEvent cfg m eventName ctx =
        (m\<lparr>lastEventContext := Some ctx\<rparr>,
         [Host_send (EventMessage eventName ctx)
            (Some (CreatePluginFilter (filetype ctx) (Subscriptions [''vim-events'']) False)),
          Host_send (RequestMessage ''quick-info'' ctx [])
            (Some (CreatePluginFilter (filetype ctx) (LanguageService [''quick-info'']) True))],
         Returned))
   \<and> (eventName = ''CursorMovedI'' \<longrightarrow> completionsEnabled cfg \<longrightarrow>
      onEvent cfg m eventName ctx =
        (m\<lparr>lastEventContext := Some ctx\<rparr>,
         [Host_send (EventMessage eventName ctx)
            (Some (CreatePluginFilter (filetype ctx) (Subscriptions [''vim-events'']) False)),
          Host_send (RequestMessage ''completion-provider'' ctx [])
            (Some (CreatePluginFilter (filetype ctx)
                     (LanguageService [''completion-provider'']) True)),
          Host_send (RequestMessage ''signature-help'' ctx [])
            (Some (CreatePluginFilter (filetype ctx)
                     (LanguageService [''signature-help'']) True))],
         Returned))
   \<and> ((eventName \<noteq> ''CursorMoved'' \<and> eventName \<noteq> ''CursorMovedI''
        \<or> eventName = ''CursorMoved'' \<and> \<not> quickInfoEnabled cfg
        \<or> eventName = ''CursorMovedI'' \<and> \<not> completionsEnabled cfg) \<longrightarrow>
      onEvent cfg m eventName ctx =
        (m\<lparr>lastEventContext := Some ctx\<rparr>,
         [Host_send (EventMessage eventName ctx)
            (Some (CreatePluginFilter (filetype ctx) (Subscriptions [''vim-events'']) False))],
         Returned))"
  by (auto simp add: onEvent_def sendLanguageServiceRequest_def)

theorem onEvent_request_policy_witness:
  "onEvent scenarioConfig \<lparr>lastEventContext = None, lastBufferInfo = None\<rparr>
     ''CursorMoved'' scenarioContext =
   (scenarioManager scenarioContext,
    [Host_send (EventMessage ''CursorMoved'' scenarioContext)
       (Some (CreatePluginFilter ''typescript'' (Subscriptions [''vim-events'']) False)),
     Host_send (RequestMessage ''quick-info'' scenarioContext [])
       (Some (CreatePluginFilter ''typescript'' (LanguageService [''quick-info'']) True))],
    Returned)"
  using onEvent_request_policy [of "''CursorMoved''" scenarioConfig
      "\<lparr>lastEventContext = None, lastBufferInfo = None\<rparr>" scenarioContext]
  by (simp add: scenarioConfig_def scenarioManager_def scenarioContext_def)

text \<open>
  Claim C8 (buffer updates). A buffer update replaces the last buffer info by the new
  lines with the file name and the version of the context, whatever was there before;
  the accessor returns exactly that; and one buffer-update message with the context
  and the lines is sent, filtered by the subscription buffer-update with no
  language-service match required.
\<close>
theorem onBufferUpdate_replaces_buffer:
  "onBufferUpdate m ctx bufferLines =
     (m\<lparr>lastBufferInfo :=
          Some \<lparr>lines = bufferLines, version = EventContext.version ctx,
                fileName = bufferFullPath ctx\<rparr>\<rparr>,
      [Host_send (BufferUpdateMessage ctx bufferLines)
         (Some (CreatePluginFilter (filetype ctx) (Subscriptions [''buffer-update'']) False))],
      Returned)
   \<and> currentBuffer (fst (onBufferUpdate m ctx bufferLines)) =
       Some \<lparr>lines = bufferLines, version = EventContext.version ctx,
             fileName = bufferFullPath ctx\<rparr>
   \<and> currentBuffer (fst (onBufferUpdate (fst (onBufferUpdate m ctx0 lines0)) ctx bufferLines)) =
       currentBuffer (fst (onBufferUpdate m ctx bufferLines))"
  by (simp add: onBufferUpdate_def currentBuffer_def)

subsection \<open>Who writes the state\<close>

text \<open>
  Claim C9 (single writer). Handling a response, of any type and shape, leaves the
  last event context and the last buffer info as they were; so do the deferred
  functions, the requests and the plugin commands. An event leaves the buffer info
  alone, a buffer update the event context.
\<close>
theorem response_handling_frame:
  "lastEventContext (fst (handlePluginResponse cfg m r)) = lastEventContext m
   \<and> lastBufferInfo (fst (handlePluginResponse cfg m r)) = lastBufferInfo m
   \<and> fst (handlePluginResponse cfg m r) = m
   \<and> fst (runCallback m cb) = m
   \<and> fst (gotoDefinition m) = m
   \<and> fst (requestFormat m) = m
   \<and> fst (requestEvaluateBlock m ident file code) = m
   \<and> fst (notifyCompletionItemSelected m item) = m
   \<and> fst (invokePluginCommand m args) = m
   \<and> lastBufferInfo (fst (onEvent cfg m eventName ctx)) = lastBufferInfo m
   \<and> lastEventContext (fst (onBufferUpdate m ctx bufferLines)) = lastEventContext m"
proof -
  have "fst (onEvent cfg m eventName ctx) = m\<lparr>lastEventContext := Some ctx\<rparr>"
    by (simp add: onEvent_def sendLanguageServiceRequest_def)
  then show ?thesis
    by (simp add: handle_state runCallback_state send_state gotoDefinition_def
        requestFormat_def requestEvaluateBlock_def notifyCompletionItemSelected_def
        invokePluginCommand_def onBufferUpdate_def)
qed

subsection \<open>The request for a selected completion item\<close>

text \<open>
  Claim C10 (selected completion item). Once an event context is known, notifying the
  selection of a completion item sends one request named
  completion-provider-item-selected with the item, and its filter requires the
  language-service capability completion-provider; a plugin that declares only the
  capability completion-provider-item-selected does not match it.
\<close>
theorem item_selected_request_capability:
  assumes "lastEventContext m = Some ctx"
  shows "notifyCompletionItemSelected m item =
           (m, [Host_send
                  (RequestMessage ''completion-provider-item-selected'' ctx [(''item'', item)])
                  (Some (CreatePluginFilter (filetype ctx)
                           (LanguageService [''completion-provider'']) True))],
            Returned)
         \<and> (\<forall>p message pluginFilter.
               Host_send message (Some pluginFilter)
                 \<in> set (fst (snd (notifyCompletionItemSelected m item))) \<longrightarrow>
               declaredLanguageService p = [''completion-provider-item-selected''] \<longrightarrow>
               \<not> filterMatches p pluginFilter)"
  using assms
  by (simp add: notifyCompletionItemSelected_def sendLanguageServiceRequest_def)

theorem item_selected_request_capability_witness:
  "notifyCompletionItemSelected (scenarioManager scenarioContext) (JStr ''f'') =
     (scenarioManager scenarioContext,
      [Host_send
         (RequestMessage ''completion-provider-item-selected'' scenarioContext
            [(''item'', JStr ''f'')])
         (Some (CreatePluginFilter ''typescript''
                  (LanguageService [''completion-provider'']) True))],
      Returned)
   \<and> \<not> filterMatches
         \<lparr>declaredSubscriptions = [],
          declaredLanguageService = [''completion-provider-item-selected''],
          declaredFiletypes = None\<rparr>
         (CreatePluginFilter ''typescript'' (LanguageService [''completion-provider'']) True)"
proof -
  have current: "lastEventContext (scenarioManager scenarioContext) = Some scenarioContext"
    by (simp add: scenarioManager_def)
  have ft: "filetype scenarioContext = ''typescript''"
    by (simp add: scenarioContext_def)
  from item_selected_request_capability [OF current, of "JStr ''f''"]
  show ?thesis
    by (simp add: ft)
qed

end
